theory Spec2Isabelle
  imports Main "HOL-Library.Word"
begin

unbundle bit_operations_syntax

section \<open>Register descriptors\<close>

text \<open>
  The model follows \<^verbatim>\<open>lldb/source/Target/RegisterContext.cpp\<close>. Register numbers,
  byte sizes and stop ids are \<^verbatim>\<open>uint32_t\<close>, addresses, thread ids and program counters
  are \<^verbatim>\<open>uint64_t\<close>. Loop counters that only index a table are natural numbers: they
  stay below the table's length and never wrap. A \<^verbatim>\<open>size_t\<close> that the source stores in a
  \<^verbatim>\<open>uint32_t\<close> before it tests it (a byte count, the number of register sets) is
  narrowed as the source does.
\<close>

text \<open>\<^verbatim>\<open>lldb::RegisterKind\<close>, the numbering schemes a register is known under.\<close>

datatype RegisterKind =
  eRegisterKindEHFrame
  | eRegisterKindDWARF
  | eRegisterKindGeneric
  | eRegisterKindProcessPlugin
  | eRegisterKindLLDB

text \<open>
  Modelled from the spec: the reserved invalid sentinel of a numbering and the generic
  role of the program counter. \<^verbatim>\<open>lldb-defines.h\<close> declares them:
  \<^verbatim>\<open>LLDB_INVALID_REGNUM\<close> is \<^verbatim>\<open>UINT32_MAX\<close>, \<^verbatim>\<open>LLDB_REGNUM_GENERIC_PC\<close> is 0.
\<close>

definition LLDB_INVALID_REGNUM :: "32 word" where
  "LLDB_INVALID_REGNUM = 0xFFFFFFFF"

definition LLDB_REGNUM_GENERIC_PC :: "32 word" where
  "LLDB_REGNUM_GENERIC_PC = 0"

text \<open>
  Modelled from the spec: the register descriptor, \<^verbatim>\<open>RegisterInfo\<close> of
  \<^verbatim>\<open>lldb-private-types.h\<close>, with the fields this file reads. \<^verbatim>\<open>value_regs\<close> is a
  pointer in the source: \<open>None\<close> is the null pointer, \<open>Some rs\<close> a list of the
  registers this one is composed of. \<^verbatim>\<open>dynamic_size_dwarf_len\<close> is the length of
  \<open>dynamic_size_dwarf_expr_bytes\<close>.
\<close>

record RegisterInfo =
  name :: string
  alt_name :: "string option"
  byte_size :: "32 word"
  kinds :: "RegisterKind \<Rightarrow> 32 word"
  value_regs :: "32 word list option"
  dynamic_size_dwarf_expr_bytes :: "8 word list"

text \<open>
  Modelled from the spec: \<^verbatim>\<open>RegisterSet\<close>, a named, ordered group of register indices;
  \<^verbatim>\<open>num_registers\<close> is the length of \<open>registers\<close>.
\<close>

record RegisterSet =
  set_name :: string
  registers :: "32 word list"

section \<open>Collaborators\<close>

text \<open>
  \<^verbatim>\<open>Status\<close>. The messages this file builds are constructors of their own, with the
  numbers and the name the format string prints; \<open>Reported\<close> is a failure a collaborator
  (the process, the expression evaluator, \<^verbatim>\<open>RegisterValue\<close>) reports with its own
  message.
\<close>

datatype Status =
  Success
  | InvalidRegisterInfoArgument
  | RegisterTooSmall
  | TooBigForRegister "32 word" string "32 word"
  | ShortRead "32 word" "32 word"
  | InvalidProcess
  | ByteCopyFailed
  | ShortWrite "32 word" "32 word"
  | Reported string

datatype ByteOrder = eByteOrderInvalid | eByteOrderBig | eByteOrderPDP | eByteOrderLittle

text \<open>
  The process behind \<^verbatim>\<open>m_thread.GetProcess()\<close>: its stop generation, its byte order and
  the state \<open>'m\<close> its memory primitives work on. An absent process is \<open>None\<close>.
\<close>

record 'm Process =
  GetStopID :: "32 word"
  GetByteOrder :: ByteOrder
  memory :: 'm

text \<open>\<^verbatim>\<open>ArchSpec\<close>, as far as the size resolver reads it.\<close>

record ArchSpec =
  GetAddressByteSize :: "32 word"
  GetArchByteOrder :: ByteOrder

text \<open>\<^verbatim>\<open>Target::GetOpcodeLoadAddress\<close> at \<^verbatim>\<open>AddressClass::eCode\<close>.\<close>

record Target =
  GetOpcodeLoadAddress :: "64 word \<Rightarrow> 64 word"

text \<open>
  The part of \<^verbatim>\<open>Thread\<close> that the program-counter accessors call. \<open>'t\<close> is the state of
  the thread's frame list, \<open>'f\<close> a handle to a frame. \<^verbatim>\<open>GetFrameWithConcreteFrameIndex\<close>
  may fetch frames, so it returns the state too.
\<close>

record ('t, 'f) Thread =
  GetFrameWithConcreteFrameIndex :: "32 word \<Rightarrow> 't \<Rightarrow> 'f option \<times> 't"
  ChangePC :: "'f \<Rightarrow> 64 word \<Rightarrow> 't \<Rightarrow> 't"
  ClearStackFrames :: "'t \<Rightarrow> 't"
  CalculateTarget :: "Target option"

section \<open>The register context\<close>

text \<open>
  A \<^verbatim>\<open>RegisterContext\<close>: its data members, the tables its subclass supplies and the
  subclass's virtual primitives. \<open>m_thread_id\<close> is \<^verbatim>\<open>m_thread.GetID()\<close>. The descriptor
  table \<open>reg_infos\<close> and the register sets \<open>reg_sets\<close> are ordered sequences:
  \<^verbatim>\<open>GetRegisterCount\<close> and \<^verbatim>\<open>GetRegisterSetCount\<close> are their lengths,
  \<^verbatim>\<open>GetRegisterInfoAtIndex\<close> is null beyond the table's end. \<open>'b\<close> is the state of the
  register storage the primitives work on (several contexts may share it), \<open>'v\<close> is
  \<^verbatim>\<open>RegisterValue\<close>. \<^verbatim>\<open>ReadRegister\<close> returns the value it stored through its reference
  parameter when it returns true, and \<open>None\<close> when it returns false. The frame
  operations of \<open>Thread\<close> act on the frame list, the register primitives on the register
  storage.
\<close>

record ('b, 'v) RegisterContext =
  m_thread_id :: "64 word"
  m_concrete_frame_idx :: "32 word"
  m_stop_id :: "32 word"
  reg_infos :: "RegisterInfo list"
  reg_sets :: "RegisterSet list"
  ConvertRegisterKindToRegisterNumber :: "RegisterKind \<Rightarrow> 32 word \<Rightarrow> 32 word"
  ReadRegister :: "RegisterInfo \<Rightarrow> 'b \<Rightarrow> 'v option \<times> 'b"
  WriteRegister :: "RegisterInfo \<Rightarrow> 'v \<Rightarrow> 'b \<Rightarrow> bool \<times> 'b"
  InvalidateAllRegisters :: "'b \<Rightarrow> 'b"

definition GetRegisterCount :: "('b, 'v) RegisterContext \<Rightarrow> nat" where
  "GetRegisterCount this = length (reg_infos this)"

definition GetRegisterInfoAtIndex :: "('b, 'v) RegisterContext \<Rightarrow> 32 word \<Rightarrow> RegisterInfo option" where
  "GetRegisterInfoAtIndex this reg =
     (if unat reg < length (reg_infos this) then Some (reg_infos this ! unat reg) else None)"

definition GetRegisterSetCount :: "('b, 'v) RegisterContext \<Rightarrow> nat" where
  "GetRegisterSetCount this = length (reg_sets this)"

definition GetThreadID :: "('b, 'v) RegisterContext \<Rightarrow> 64 word" where
  "GetThreadID this = m_thread_id this"

section \<open>Invalidation\<close>

text \<open>
  \<^verbatim>\<open>InvalidateIfNeeded\<close>. \<open>process_sp\<close> is \<^verbatim>\<open>m_thread.GetProcess()\<close>. The function
  returns the context (its \<open>m_stop_id\<close> may be set) and the register storage.
\<close>

definition InvalidateIfNeeded ::
  "('b, 'v) RegisterContext \<Rightarrow> bool \<Rightarrow> 'm Process option \<Rightarrow> 'b \<Rightarrow> ('b, 'v) RegisterContext \<times> 'b"
where
  "InvalidateIfNeeded this force process_sp b =
     (let invalidate0 = force;
          process_stop_id = (case process_sp of Some p \<Rightarrow> GetStopID p | None \<Rightarrow> 0xFFFFFFFF);
          invalidate1 = (case process_sp of Some p \<Rightarrow> invalidate0 | None \<Rightarrow> True);
          invalidate = (if \<not> invalidate1 then process_stop_id \<noteq> m_stop_id this else invalidate1)
      in if invalidate
         then (this\<lparr>m_stop_id := process_stop_id\<rparr>, InvalidateAllRegisters this b)
         else (this, b))"

section \<open>Dynamic register size\<close>

text \<open>
  \<^verbatim>\<open>UpdateDynamicRegisterSize\<close>. \<open>Evaluate\<close> is \<^verbatim>\<open>DWARFExpression::Evaluate\<close> on the
  descriptor's opcodes, with the byte order and address size of the architecture and the
  execution context \<open>exe_ctx\<close> (the thread and this register context): \<open>Inr result\<close> when
  it returns true, \<open>Inl error\<close> when it returns false. \<open>SInt\<close> is
  \<^verbatim>\<open>result.GetScalar().SInt(fail_value)\<close>, a C \<^verbatim>\<open>int\<close>. The second component is the
  standard output: an entry \<open>e\<close> is the line
  \<^verbatim>\<open>Error executing DwarfExpression::Evaluate <e>\<close>.
\<close>

definition UpdateDynamicRegisterSize ::
  "(8 word list \<Rightarrow> ByteOrder \<Rightarrow> 32 word \<Rightarrow> 'x \<Rightarrow> Status + 'r) \<Rightarrow> ('r \<Rightarrow> 32 word \<Rightarrow> 32 word) \<Rightarrow>
   ArchSpec \<Rightarrow> RegisterInfo \<Rightarrow> 'x \<Rightarrow> Status list \<Rightarrow> 32 word \<times> Status list"
where
  "UpdateDynamicRegisterSize Evaluate SInt arch reg_info exe_ctx out =
     (let addr_size = GetAddressByteSize arch;
          dwarf_opcodes = dynamic_size_dwarf_expr_bytes reg_info
      in case Evaluate dwarf_opcodes (GetArchByteOrder arch) addr_size exe_ctx of
           Inr result \<Rightarrow>
             (let expr_result = SInt result (- 1)
              in if expr_result = 0 then (4, out)
                 else if expr_result = 1 then (8, out)
                 else (byte_size reg_info, out))
         | Inl error \<Rightarrow> (byte_size reg_info, out @ [error]))"

section \<open>Unsigned accessors and the program counter\<close>

text \<open>
  The two overloads of \<^verbatim>\<open>ReadRegisterAsUnsigned\<close> and of \<^verbatim>\<open>WriteRegisterFromUnsigned\<close>:
  the one on a descriptor pointer carries the suffix \<open>_info\<close>. \<open>GetAsUInt64\<close> and
  \<open>SetUInt\<close> are the members of \<^verbatim>\<open>RegisterValue\<close>; \<open>SetUInt\<close> is \<open>None\<close> when it
  returns false.
\<close>

definition ReadRegisterAsUnsigned_info ::
  "('v \<Rightarrow> 64 word) \<Rightarrow> ('b, 'v) RegisterContext \<Rightarrow> RegisterInfo option \<Rightarrow> 64 word \<Rightarrow> 'b \<Rightarrow> 64 word \<times> 'b"
where
  "ReadRegisterAsUnsigned_info GetAsUInt64 this reg_info fail_value b =
     (case reg_info of
        Some info \<Rightarrow>
          (case ReadRegister this info b of
             (Some v, b') \<Rightarrow> (GetAsUInt64 v, b')
           | (None, b') \<Rightarrow> (fail_value, b'))
      | None \<Rightarrow> (fail_value, b))"

definition ReadRegisterAsUnsigned ::
  "('v \<Rightarrow> 64 word) \<Rightarrow> ('b, 'v) RegisterContext \<Rightarrow> 32 word \<Rightarrow> 64 word \<Rightarrow> 'b \<Rightarrow> 64 word \<times> 'b"
where
  "ReadRegisterAsUnsigned GetAsUInt64 this reg fail_value b =
     (if reg \<noteq> LLDB_INVALID_REGNUM
      then ReadRegisterAsUnsigned_info GetAsUInt64 this (GetRegisterInfoAtIndex this reg) fail_value b
      else (fail_value, b))"

definition WriteRegisterFromUnsigned_info ::
  "(64 word \<Rightarrow> 32 word \<Rightarrow> 'v option) \<Rightarrow> ('b, 'v) RegisterContext \<Rightarrow> RegisterInfo option \<Rightarrow> 64 word \<Rightarrow> 'b \<Rightarrow> bool \<times> 'b"
where
  "WriteRegisterFromUnsigned_info SetUInt this reg_info uval b =
     (case reg_info of
        Some info \<Rightarrow>
          (case SetUInt uval (byte_size info) of
             Some v \<Rightarrow> WriteRegister this info v b
           | None \<Rightarrow> (False, b))
      | None \<Rightarrow> (False, b))"

definition WriteRegisterFromUnsigned ::
  "(64 word \<Rightarrow> 32 word \<Rightarrow> 'v option) \<Rightarrow> ('b, 'v) RegisterContext \<Rightarrow> 32 word \<Rightarrow> 64 word \<Rightarrow> 'b \<Rightarrow> bool \<times> 'b"
where
  "WriteRegisterFromUnsigned SetUInt this reg uval b =
     (if reg = LLDB_INVALID_REGNUM then (False, b)
      else WriteRegisterFromUnsigned_info SetUInt this (GetRegisterInfoAtIndex this reg) uval b)"

text \<open>\<^verbatim>\<open>GetPC\<close>: \<open>m_thread\<close> is the owning thread.\<close>

definition GetPC ::
  "('v \<Rightarrow> 64 word) \<Rightarrow> ('t, 'f) Thread \<Rightarrow> ('b, 'v) RegisterContext \<Rightarrow> 64 word \<Rightarrow> 'b \<Rightarrow> 64 word \<times> 'b"
where
  "GetPC GetAsUInt64 m_thread this fail_value b =
     (let reg = ConvertRegisterKindToRegisterNumber this eRegisterKindGeneric LLDB_REGNUM_GENERIC_PC
      in case ReadRegisterAsUnsigned GetAsUInt64 this reg fail_value b of
           (pc, b') \<Rightarrow>
             (if pc \<noteq> fail_value
              then (case CalculateTarget m_thread of
                      Some target \<Rightarrow> (GetOpcodeLoadAddress target pc, b')
                    | None \<Rightarrow> (pc, b'))
              else (pc, b')))"

text \<open>\<^verbatim>\<open>SetPC(uint64_t)\<close>: returns the flag, the register storage and the frame state.\<close>

definition SetPC ::
  "(64 word \<Rightarrow> 32 word \<Rightarrow> 'v option) \<Rightarrow> ('t, 'f) Thread \<Rightarrow> ('b, 'v) RegisterContext \<Rightarrow> 64 word \<Rightarrow>
   'b \<Rightarrow> 't \<Rightarrow> bool \<times> 'b \<times> 't"
where
  "SetPC SetUInt m_thread this pc b t =
     (let reg = ConvertRegisterKindToRegisterNumber this eRegisterKindGeneric LLDB_REGNUM_GENERIC_PC
      in case WriteRegisterFromUnsigned SetUInt this reg pc b of
           (success, b') \<Rightarrow>
             (if success
              then (case GetFrameWithConcreteFrameIndex m_thread (m_concrete_frame_idx this) t of
                      (Some frame_sp, t') \<Rightarrow> (success, b', ChangePC m_thread frame_sp pc t')
                    | (None, t') \<Rightarrow> (success, b', ClearStackFrames m_thread t'))
              else (success, b', t)))"

section \<open>Translation between numbering kinds\<close>

text \<open>
  \<^verbatim>\<open>ConvertBetweenRegisterKinds\<close>. The loop visits \<^verbatim>\<open>GetRegisterInfoAtIndex(0)\<close>, ...,
  \<^verbatim>\<open>GetRegisterInfoAtIndex(GetRegisterCount() - 1)\<close> in this order: it is the recursion
  \<open>ConvertBetweenRegisterKinds_scan\<close> over the descriptor table. \<open>target_regnum\<close> is the
  reference parameter: the function returns its flag and the parameter's value on
  return.
\<close>

fun ConvertBetweenRegisterKinds_scan ::
  "RegisterInfo list \<Rightarrow> RegisterKind \<Rightarrow> 32 word \<Rightarrow> RegisterKind \<Rightarrow> 32 word \<Rightarrow> bool \<times> 32 word"
where
  "ConvertBetweenRegisterKinds_scan [] source_rk source_regnum target_rk target_regnum =
     (False, target_regnum)"
| "ConvertBetweenRegisterKinds_scan (reg_info # rest) source_rk source_regnum target_rk target_regnum =
     (if kinds reg_info source_rk = source_regnum
      then (kinds reg_info target_rk \<noteq> LLDB_INVALID_REGNUM, kinds reg_info target_rk)
      else ConvertBetweenRegisterKinds_scan rest source_rk source_regnum target_rk target_regnum)"


section \<open>Copy between contexts\<close>

text \<open>
  \<^verbatim>\<open>CopyFromRegisterContext\<close>. \<open>frame_zero_context\<close> is \<^verbatim>\<open>m_thread.GetRegisterContext()\<close>,
  \<open>context\<close> the argument. \<^verbatim>\<open>GetRegisterSetCount\<close> returns a \<^verbatim>\<open>size_t\<close>, the number of
  the context's sets; the source keeps the count of \<open>context\<close> in the \<^verbatim>\<open>uint32_t\<close>
  \<open>num_register_sets\<close>, compares that with this context's count, and bounds the outer
  loop with it. The body of the inner loop is \<open>CopyFromRegisterContext_reg\<close>, the inner
  loop \<open>CopyFromRegisterContext_regs\<close> (over the registers of one set), the outer loop
  \<open>CopyFromRegisterContext_sets\<close> (over \<^verbatim>\<open>GetRegisterSet(0)\<close>, ...,
  \<^verbatim>\<open>GetRegisterSet(num_register_sets - 1)\<close> of this context).
\<close>

definition CopyFromRegisterContext_reg ::
  "('b, 'v) RegisterContext \<Rightarrow> ('b, 'v) RegisterContext \<Rightarrow> ('b, 'v) RegisterContext \<Rightarrow> 32 word \<Rightarrow> 'b \<Rightarrow> 'b"
where
  "CopyFromRegisterContext_reg this frame_zero_context context reg b =
     (case GetRegisterInfoAtIndex this reg of
        None \<Rightarrow> b
      | Some reg_info \<Rightarrow>
          (if value_regs reg_info \<noteq> None then b
           else (case ReadRegister context reg_info b of
                   (Some reg_value, b1) \<Rightarrow> snd (WriteRegister this reg_info reg_value b1)
                 | (None, b1) \<Rightarrow>
                     (case ReadRegister frame_zero_context reg_info b1 of
                        (Some reg_value, b2) \<Rightarrow> snd (WriteRegister this reg_info reg_value b2)
                      | (None, b2) \<Rightarrow> b2))))"

fun CopyFromRegisterContext_regs ::
  "('b, 'v) RegisterContext \<Rightarrow> ('b, 'v) RegisterContext \<Rightarrow> ('b, 'v) RegisterContext \<Rightarrow> 32 word list \<Rightarrow> 'b \<Rightarrow> 'b"
where
  "CopyFromRegisterContext_regs this frame_zero_context context [] b = b"
| "CopyFromRegisterContext_regs this frame_zero_context context (reg # rest) b =
     CopyFromRegisterContext_regs this frame_zero_context context rest
       (CopyFromRegisterContext_reg this frame_zero_context context reg b)"

fun CopyFromRegisterContext_sets ::
  "('b, 'v) RegisterContext \<Rightarrow> ('b, 'v) RegisterContext \<Rightarrow> ('b, 'v) RegisterContext \<Rightarrow> RegisterSet list \<Rightarrow> 'b \<Rightarrow> 'b"
where
  "CopyFromRegisterContext_sets this frame_zero_context context [] b = b"
| "CopyFromRegisterContext_sets this frame_zero_context context (reg_set # rest) b =
     CopyFromRegisterContext_sets this frame_zero_context context rest
       (CopyFromRegisterContext_regs this frame_zero_context context (registers reg_set) b)"

definition CopyFromRegisterContext ::
  "('b, 'v) RegisterContext \<Rightarrow> ('b, 'v) RegisterContext \<Rightarrow> ('b, 'v) RegisterContext \<Rightarrow> 'b \<Rightarrow> bool \<times> 'b"
where
  "CopyFromRegisterContext this frame_zero_context context b =
     (let num_register_sets = (of_nat (GetRegisterSetCount context) :: 32 word)
      in if GetThreadID context \<noteq> GetThreadID this then (False, b)
         else if unat num_register_sets \<noteq> GetRegisterSetCount this then (False, b)
         else (True, CopyFromRegisterContext_sets this frame_zero_context context
                       (take (unat num_register_sets) (reg_sets this)) b))"

section \<open>Registers in memory\<close>

text \<open>
  \<^verbatim>\<open>ReadRegisterValueFromMemory\<close> and \<^verbatim>\<open>WriteRegisterValueToMemory\<close>.
  \<open>kMaxRegisterByteSize\<close> is the constant of \<^verbatim>\<open>RegisterValue\<close>. \<open>ReadMemory\<close> and
  \<open>WriteMemory\<close> are the process's primitives on its memory state: they take the address,
  (the bytes and) the size as \<^verbatim>\<open>size_t\<close>, and return the number of bytes transferred as
  \<^verbatim>\<open>size_t\<close>, (the buffer they filled,) the \<^verbatim>\<open>Status\<close> they leave in \<open>error\<close>, and the
  memory state. The source keeps the count in a \<^verbatim>\<open>uint32_t\<close>. \<open>SetFromMemoryData\<close> and
  \<open>GetAsMemoryData\<close> are the members of \<^verbatim>\<open>RegisterValue\<close>; the first returns \<open>error\<close> and
  the register value it leaves, the second the number of bytes copied, the buffer and
  \<open>error\<close>. Both functions return \<open>error\<close>, the reference parameter \<open>reg_value\<close> where
  there is one, and the process.
\<close>

definition ReadRegisterValueFromMemory ::
  "32 word \<Rightarrow> (64 word \<Rightarrow> 64 word \<Rightarrow> 'm \<Rightarrow> (64 word \<times> 8 word list \<times> Status) \<times> 'm) \<Rightarrow>
   (RegisterInfo \<Rightarrow> 8 word list \<Rightarrow> 32 word \<Rightarrow> ByteOrder \<Rightarrow> Status \<Rightarrow> 'v \<Rightarrow> Status \<times> 'v) \<Rightarrow>
   'm Process option \<Rightarrow> RegisterInfo option \<Rightarrow> 64 word \<Rightarrow> 32 word \<Rightarrow> 'v \<Rightarrow>
   Status \<times> 'v \<times> 'm Process option"
where
  "ReadRegisterValueFromMemory kMaxRegisterByteSize ReadMemory SetFromMemoryData
       process_sp reg_info src_addr src_len reg_value =
     (case reg_info of
        None \<Rightarrow> (InvalidRegisterInfoArgument, reg_value, process_sp)
      | Some info \<Rightarrow>
          (if src_len > kMaxRegisterByteSize then (RegisterTooSmall, reg_value, process_sp)
           else let dst_len = byte_size info
                in if src_len > dst_len
                   then (TooBigForRegister src_len (name info) dst_len, reg_value, process_sp)
                   else (case process_sp of
                           Some p \<Rightarrow>
                             (case ReadMemory src_addr (ucast src_len) (memory p) of
                                ((n, src, error), m') \<Rightarrow>
                                  (let bytes_read = (ucast n :: 32 word);
                                       p' = p\<lparr>memory := m'\<rparr>
                                   in if bytes_read \<noteq> src_len
                                      then (if error = Success
                                            then (ShortRead bytes_read src_len, reg_value, Some p')
                                            else (error, reg_value, Some p'))
                                      else (case SetFromMemoryData info src src_len
                                                   (GetByteOrder p') error reg_value of
                                              (error', reg_value') \<Rightarrow> (error', reg_value', Some p'))))
                         | None \<Rightarrow> (InvalidProcess, reg_value, process_sp))))"

definition WriteRegisterValueToMemory ::
  "(64 word \<Rightarrow> 8 word list \<Rightarrow> 64 word \<Rightarrow> 'm \<Rightarrow> (64 word \<times> Status) \<times> 'm) \<Rightarrow>
   (RegisterInfo option \<Rightarrow> 32 word \<Rightarrow> ByteOrder \<Rightarrow> 'v \<Rightarrow> 32 word \<times> 8 word list \<times> Status) \<Rightarrow>
   'm Process option \<Rightarrow> RegisterInfo option \<Rightarrow> 64 word \<Rightarrow> 32 word \<Rightarrow> 'v \<Rightarrow>
   Status \<times> 'm Process option"
where
  "WriteRegisterValueToMemory WriteMemory GetAsMemoryData process_sp reg_info dst_addr dst_len reg_value =
     (case process_sp of
        Some p \<Rightarrow>
          (case GetAsMemoryData reg_info dst_len (GetByteOrder p) reg_value of
             (bytes_copied, dst, error) \<Rightarrow>
               (if error = Success
                then (if bytes_copied = 0 then (ByteCopyFailed, process_sp)
                      else (case WriteMemory dst_addr dst (ucast bytes_copied) (memory p) of
                              ((n, error'), m') \<Rightarrow>
                                (let bytes_written = (ucast n :: 32 word);
                                     p' = p\<lparr>memory := m'\<rparr>
                                 in if bytes_written \<noteq> bytes_copied
                                    then (if error' = Success
                                          then (ShortWrite bytes_written bytes_copied, Some p')
                                          else (error', Some p'))
                                    else (error', Some p'))))
                else (error, process_sp)))
      | None \<Rightarrow> (InvalidProcess, process_sp))"

section \<open>A small architecture for the examples\<close>

text \<open>
  The descriptor table of the scenario: \<open>pc\<close> (generic role 0, native number 0) and
  \<open>sp\<close> (generic role 1, native number 1), both 8 bytes wide, and a pseudo-register
  \<open>pcl\<close>, the low half of \<open>pc\<close>. A last descriptor \<open>f0\<close> has a dynamic size.
\<close>

definition example_kinds :: "32 word \<Rightarrow> 32 word \<Rightarrow> RegisterKind \<Rightarrow> 32 word" where
  "example_kinds generic native k =
     (case k of
        eRegisterKindGeneric \<Rightarrow> generic
      | eRegisterKindLLDB \<Rightarrow> native
      | _ \<Rightarrow> LLDB_INVALID_REGNUM)"

definition reg_pc :: RegisterInfo where
  "reg_pc = \<lparr>name = ''pc'', alt_name = None, byte_size = 8, kinds = example_kinds 0 0,
     value_regs = None, dynamic_size_dwarf_expr_bytes = []\<rparr>"

definition reg_sp :: RegisterInfo where
  "reg_sp = \<lparr>name = ''sp'', alt_name = None, byte_size = 8, kinds = example_kinds 1 1,
     value_regs = None, dynamic_size_dwarf_expr_bytes = []\<rparr>"

definition reg_pcl :: RegisterInfo where
  "reg_pcl = \<lparr>name = ''pcl'', alt_name = None, byte_size = 4,
     kinds = example_kinds LLDB_INVALID_REGNUM 2,
     value_regs = Some [0], dynamic_size_dwarf_expr_bytes = []\<rparr>"

definition reg_f0 :: RegisterInfo where
  "reg_f0 = \<lparr>name = ''f0'', alt_name = None, byte_size = 16,
     kinds = example_kinds LLDB_INVALID_REGNUM 3,
     value_regs = None, dynamic_size_dwarf_expr_bytes = [0x70, 0x00]\<rparr>"

definition example_arch :: ArchSpec where
  "example_arch = \<lparr>GetAddressByteSize = 8, GetArchByteOrder = eByteOrderLittle\<rparr>"

text \<open>
  The register storage of the examples: one cell per context and native register
  number, and counters of the calls it has served.
\<close>

record ExampleStorage =
  cells :: "nat \<times> 32 word \<Rightarrow> 64 word option"
  accesses :: nat
  invalidations :: nat

text \<open>
  Context number \<open>k\<close> of a thread: it reads and writes its own cells, refuses writes
  when \<open>writable\<close> is false, and keeps whole 64-bit values.
\<close>

definition example_context :: "nat \<Rightarrow> 64 word \<Rightarrow> bool \<Rightarrow> (ExampleStorage, 64 word) RegisterContext" where
  "example_context k tid writable =
     \<lparr>m_thread_id = tid, m_concrete_frame_idx = of_nat k, m_stop_id = 0,
      reg_infos = [reg_pc, reg_sp, reg_pcl, reg_f0],
      reg_sets = [\<lparr>set_name = ''General'', registers = [0, 1, 2, 3, 7]\<rparr>],
      ConvertRegisterKindToRegisterNumber =
        (\<lambda>kind num.
           case ConvertBetweenRegisterKinds_scan [reg_pc, reg_sp, reg_pcl, reg_f0] kind num
                  eRegisterKindLLDB LLDB_INVALID_REGNUM of
             (found, n) \<Rightarrow> if found then n else LLDB_INVALID_REGNUM),
      ReadRegister =
        (\<lambda>info b. (cells b (k, kinds info eRegisterKindLLDB), b\<lparr>accesses := Suc (accesses b)\<rparr>)),
      WriteRegister =
        (\<lambda>info v b.
           if writable
           then (True, b\<lparr>cells := (cells b)((k, kinds info eRegisterKindLLDB) := Some v),
                          accesses := Suc (accesses b)\<rparr>)
           else (False, b\<lparr>accesses := Suc (accesses b)\<rparr>)),
      InvalidateAllRegisters =
        (\<lambda>b. b\<lparr>cells := (\<lambda>(c, r). if c = k then None else cells b (c, r)),
                invalidations := Suc (invalidations b)\<rparr>)\<rparr>"


definition example_storage :: ExampleStorage where
  "example_storage =
     \<lparr>cells = (Map.empty((0, 0) := Some 0x1000, (0, 1) := Some 0x2000, (0, 2) := Some 0x3000,
                         (0, 3) := Some 0xF0, (1, 1) := Some 0x7000, (2, 0) := Some 0x4010, (2, 2) := Some 0x9)),
      accesses = 0, invalidations = 0\<rparr>"

definition example_SetUInt :: "64 word \<Rightarrow> 32 word \<Rightarrow> 64 word option" where
  "example_SetUInt uval byte_sz = (if byte_sz = 8 then Some uval else None)"

definition example_GetAsUInt64 :: "64 word \<Rightarrow> 64 word" where
  "example_GetAsUInt64 v = v"

text \<open>
  A thread for the examples: its frame list holds the concrete frame index and the
  program counter of each frame; a frame's handle is its concrete index. Its target
  clears bit 0 of a code address.
\<close>

definition example_thread :: "((32 word \<times> 64 word) list, 32 word) Thread" where
  "example_thread =
     \<lparr>GetFrameWithConcreteFrameIndex =
        (\<lambda>idx t. (case map_of t idx of Some old_pc \<Rightarrow> Some idx | None \<Rightarrow> None, t)),
      ChangePC = (\<lambda>frame pc t. map (\<lambda>(i, old_pc). if i = frame then (i, pc) else (i, old_pc)) t),
      ClearStackFrames = (\<lambda>t. []),
      CalculateTarget = Some \<lparr>GetOpcodeLoadAddress = (\<lambda>addr. addr AND NOT 1)\<rparr>\<rparr>"

text \<open>
  A process for the examples. Its memory holds zero bytes and transfers at most
  \<open>limit\<close> bytes in one call; it counts the calls.
\<close>

record ExampleMemory =
  limit :: nat
  transfers :: nat

definition example_ReadMemory ::
  "64 word \<Rightarrow> 64 word \<Rightarrow> ExampleMemory \<Rightarrow> (64 word \<times> 8 word list \<times> Status) \<times> ExampleMemory" where
  "example_ReadMemory vm_addr sz m =
     ((of_nat (min (unat sz) (limit m)), replicate (min (unat sz) (limit m)) 0, Success),
      m\<lparr>transfers := Suc (transfers m)\<rparr>)"

definition example_WriteMemory ::
  "64 word \<Rightarrow> 8 word list \<Rightarrow> 64 word \<Rightarrow> ExampleMemory \<Rightarrow> (64 word \<times> Status) \<times> ExampleMemory" where
  "example_WriteMemory vm_addr buf sz m =
     ((of_nat (min (unat sz) (limit m)), Success), m\<lparr>transfers := Suc (transfers m)\<rparr>)"

definition example_SetFromMemoryData ::
  "RegisterInfo \<Rightarrow> 8 word list \<Rightarrow> 32 word \<Rightarrow> ByteOrder \<Rightarrow> Status \<Rightarrow> 64 word \<Rightarrow> Status \<times> 64 word" where
  "example_SetFromMemoryData info src src_len order error v = (Success, word_rcat (rev src))"

definition example_GetAsMemoryData ::
  "RegisterInfo option \<Rightarrow> 32 word \<Rightarrow> ByteOrder \<Rightarrow> 64 word \<Rightarrow> 32 word \<times> 8 word list \<times> Status" where
  "example_GetAsMemoryData reg_info dst_len order v =
     (case reg_info of
        None \<Rightarrow> (0, [], InvalidRegisterInfoArgument)
      | Some info \<Rightarrow> (dst_len, map (\<lambda>i. ucast (drop_bit (8 * i) v)) [0..<unat dst_len], Success))"

definition example_process :: "nat \<Rightarrow> ExampleMemory Process" where
  "example_process n =
     \<lparr>GetStopID = 7, GetByteOrder = eByteOrderLittle, memory = \<lparr>limit = n, transfers = 0\<rparr>\<rparr>"

text \<open>
  An evaluator stub for the examples: the execution context scripts its answer.
\<close>

definition example_Evaluate :: "8 word list \<Rightarrow> ByteOrder \<Rightarrow> 32 word \<Rightarrow> Status + 32 word \<Rightarrow> Status + 32 word" where
  "example_Evaluate opcodes order addr_size exe_ctx = exe_ctx"

definition example_SInt :: "32 word \<Rightarrow> 32 word \<Rightarrow> 32 word" where
  "example_SInt result fail_value = result"

section \<open>Properties\<close>

subsection \<open>Auxiliary facts\<close>




text \<open>A count below \<open>2 ^ 32\<close> is kept as it is in a \<^verbatim>\<open>uint32_t\<close>.\<close>

lemma uint32_count_unchanged:
  "n < 2 ^ 32 \<Longrightarrow> unat (of_nat n :: 32 word) = n"
  by (simp add: unat_of_nat take_bit_nat_eq_self)

text \<open>
  A \<^verbatim>\<open>size_t\<close> count below the requested \<^verbatim>\<open>uint32_t\<close> length differs from it after
  the conversion to \<^verbatim>\<open>uint32_t\<close>.
\<close>

lemma short_count_differs:
  fixes n :: "64 word" and len :: "32 word"
  assumes "n < ucast len"
  shows "(ucast n :: 32 word) \<noteq> len"
proof
  assume eq: "(ucast n :: 32 word) = len"
  have l32: "unat len < 2 ^ 32"
    using unsigned_less [of len, where ?'a = nat] by simp
  then have l64: "unat len < 2 ^ 64"
    by simp
  have "unat (ucast len :: 64 word) = unat len"
    using l64 by (simp add: unsigned_ucast_eq take_bit_nat_eq_self)
  with assms have less: "unat n < unat len"
    by (simp add: word_less_nat_alt)
  with l32 have "unat n < 2 ^ 32"
    by simp
  then have "unat (ucast n :: 32 word) = unat n"
    by (simp add: unsigned_ucast_eq take_bit_nat_eq_self)
  with eq less show False
    by simp
qed

lemma example_pc_number:
  "ConvertRegisterKindToRegisterNumber (example_context k tid w) eRegisterKindGeneric LLDB_REGNUM_GENERIC_PC = 0"
  by (simp add: example_context_def reg_pc_def example_kinds_def LLDB_REGNUM_GENERIC_PC_def
        LLDB_INVALID_REGNUM_def)

lemma example_pc_info: "GetRegisterInfoAtIndex (example_context k tid w) 0 = Some reg_pc"
  by (simp add: GetRegisterInfoAtIndex_def example_context_def)

lemma example_write_pc:
  "WriteRegisterFromUnsigned example_SetUInt (example_context k tid w) 0 pc b =
     (if w then (True, b\<lparr>cells := (cells b)((k, 0) := Some pc), accesses := Suc (accesses b)\<rparr>)
      else (False, b\<lparr>accesses := Suc (accesses b)\<rparr>))"
  by (simp add: WriteRegisterFromUnsigned_def WriteRegisterFromUnsigned_info_def example_pc_info
        LLDB_INVALID_REGNUM_def example_SetUInt_def)
     (simp add: example_context_def reg_pc_def example_kinds_def)

lemma example_copy_nothing:
  "cells (snd (CopyFromRegisterContext (example_context 0 1 False) (example_context 1 1 True)
             (example_context 2 1 True) example_storage)) (0, 0) = Some 0x1000
   \<and> cells (snd (CopyFromRegisterContext (example_context 0 1 False) (example_context 1 1 True)
             (example_context 2 1 True) example_storage)) (0, 1) = Some 0x2000
   \<and> cells (snd (CopyFromRegisterContext (example_context 0 1 True) (example_context 5 1 True)
             (example_context 6 1 True) example_storage)) (0, 0) = Some 0x1000
   \<and> cells (snd (CopyFromRegisterContext (example_context 0 1 True) (example_context 5 1 True)
             (example_context 6 1 True) example_storage)) (0, 1) = Some 0x2000"
  by (simp add: CopyFromRegisterContext_def CopyFromRegisterContext_reg_def GetRegisterInfoAtIndex_def
        GetThreadID_def GetRegisterSetCount_def
        example_context_def example_storage_def reg_pc_def reg_sp_def reg_pcl_def reg_f0_def
        example_kinds_def LLDB_INVALID_REGNUM_def)

text \<open>
  The count test on a source context with \<open>2 ^ 32 + 1\<close> register sets and a destination
  with one: the \<^verbatim>\<open>uint32_t\<close> holds 1, the test passes and the function returns true.
\<close>

lemma example_narrowed_count:
  "GetRegisterSetCount ((example_context 2 1 True)
       \<lparr>reg_sets := replicate (2 ^ 32 + 1) \<lparr>set_name = ''General'', registers = [0]\<rparr>\<rparr>) = 2 ^ 32 + 1
   \<and> GetRegisterSetCount (example_context 0 1 True) = 1
   \<and> fst (CopyFromRegisterContext (example_context 0 1 True) (example_context 1 1 True)
            ((example_context 2 1 True)
               \<lparr>reg_sets := replicate (2 ^ 32 + 1) \<lparr>set_name = ''General'', registers = [0]\<rparr>\<rparr>)
            example_storage)"
  by (simp add: CopyFromRegisterContext_def GetThreadID_def GetRegisterSetCount_def
        example_context_def)

subsection \<open>Dynamic register size\<close>

text \<open>
  C1. Resolving a dynamic size returns 4 when the evaluator succeeds and the integer read
  from its result is 0, 8 when it is 1, and the descriptor's declared \<open>byte_size\<close> when it
  is any other number or when the evaluator fails. A failure of the evaluator only adds a
  line to the output: the caller gets a size in every case.
\<close>

theorem UpdateDynamicRegisterSize_fallback:
  "(Evaluate (dynamic_size_dwarf_expr_bytes reg_info) (GetArchByteOrder arch) (GetAddressByteSize arch) exe_ctx = Inr result
      \<and> SInt result (- 1) = 0
      \<longrightarrow> UpdateDynamicRegisterSize Evaluate SInt arch reg_info exe_ctx out = (4, out))
   \<and> (Evaluate (dynamic_size_dwarf_expr_bytes reg_info) (GetArchByteOrder arch) (GetAddressByteSize arch) exe_ctx = Inr result
      \<and> SInt result (- 1) = 1
      \<longrightarrow> UpdateDynamicRegisterSize Evaluate SInt arch reg_info exe_ctx out = (8, out))
   \<and> (Evaluate (dynamic_size_dwarf_expr_bytes reg_info) (GetArchByteOrder arch) (GetAddressByteSize arch) exe_ctx = Inr result
      \<and> SInt result (- 1) \<noteq> 0 \<and> SInt result (- 1) \<noteq> 1
      \<longrightarrow> UpdateDynamicRegisterSize Evaluate SInt arch reg_info exe_ctx out = (byte_size reg_info, out))
   \<and> (Evaluate (dynamic_size_dwarf_expr_bytes reg_info) (GetArchByteOrder arch) (GetAddressByteSize arch) exe_ctx = Inl error
      \<longrightarrow> UpdateDynamicRegisterSize Evaluate SInt arch reg_info exe_ctx out = (byte_size reg_info, out @ [error]))"
  by (simp add: UpdateDynamicRegisterSize_def)

theorem UpdateDynamicRegisterSize_fallback_witness:
  "UpdateDynamicRegisterSize example_Evaluate example_SInt example_arch reg_f0 (Inr 0) [] = (4, [])
   \<and> UpdateDynamicRegisterSize example_Evaluate example_SInt example_arch reg_f0 (Inr 1) [] = (8, [])
   \<and> UpdateDynamicRegisterSize example_Evaluate example_SInt example_arch reg_f0 (Inr 42) [] = (16, [])
   \<and> UpdateDynamicRegisterSize example_Evaluate example_SInt example_arch reg_f0
        (Inl (Reported ''stack empty'')) [] = (16, [Reported ''stack empty''])"
  using UpdateDynamicRegisterSize_fallback
          [of example_Evaluate reg_f0 example_arch "Inr 0" 0 example_SInt "[]"]
        UpdateDynamicRegisterSize_fallback
          [of example_Evaluate reg_f0 example_arch "Inr 1" 1 example_SInt "[]"]
        UpdateDynamicRegisterSize_fallback
          [of example_Evaluate reg_f0 example_arch "Inr 42" 42 example_SInt "[]"]
        UpdateDynamicRegisterSize_fallback
          [of example_Evaluate reg_f0 example_arch "Inl (Reported ''stack empty'')" _ example_SInt "[]"
              "Reported ''stack empty''"]
  by (simp add: example_Evaluate_def example_SInt_def reg_f0_def)

subsection \<open>Invalidation\<close>

text \<open>
  C2, as the code has it. \<^verbatim>\<open>InvalidateIfNeeded\<close> invalidates exactly when \<open>force\<close> is set,
  the process is gone, or the process's stop id differs from \<open>m_stop_id\<close>; it then records
  the process's stop id, or \<^verbatim>\<open>UINT32_MAX\<close> when the process is gone. While the process is
  present and its stop id does not change, a second call with \<open>force = False\<close> changes
  nothing, so the two calls invalidate at most once.
\<close>

theorem InvalidateIfNeeded_gate:
  "InvalidateIfNeeded this force process_sp b =
     (if force \<or> process_sp = None \<or> (\<exists>p. process_sp = Some p \<and> GetStopID p \<noteq> m_stop_id this)
      then (this\<lparr>m_stop_id := (case process_sp of Some p \<Rightarrow> GetStopID p | None \<Rightarrow> 0xFFFFFFFF)\<rparr>,
            InvalidateAllRegisters this b)
      else (this, b))
   \<and> (process_sp = Some p \<and> GetStopID p' = GetStopID p \<longrightarrow>
        (case InvalidateIfNeeded this False process_sp b of
           (this1, b1) \<Rightarrow> InvalidateIfNeeded this1 False (Some p') b1 = (this1, b1)))"
  by (cases process_sp) (auto simp: InvalidateIfNeeded_def Let_def)

theorem InvalidateIfNeeded_gate_witness:
  "invalidations (snd (InvalidateIfNeeded (example_context 0 1 True) False
                         (Some (example_process 8)) example_storage)) = 1
   \<and> m_stop_id (fst (InvalidateIfNeeded (example_context 0 1 True) False
                         (Some (example_process 8)) example_storage)) = 7
   \<and> (case InvalidateIfNeeded (example_context 0 1 True) False (Some (example_process 8)) example_storage of
         (this1, b1) \<Rightarrow>
           invalidations (snd (InvalidateIfNeeded this1 False (Some (example_process 3)) b1)) = 1)
   \<and> invalidations (snd (InvalidateIfNeeded ((example_context 0 1 True)\<lparr>m_stop_id := 7\<rparr>) False
                         (Some (example_process 8)) example_storage)) = 0
   \<and> invalidations (snd (InvalidateIfNeeded ((example_context 0 1 True)\<lparr>m_stop_id := 7\<rparr>) True
                         (Some (example_process 8)) example_storage)) = 1"
  using InvalidateIfNeeded_gate
          [of "example_context 0 1 True" False "Some (example_process 8)" example_storage
              "example_process 8" "example_process 3"]
        InvalidateIfNeeded_gate
          [of "(example_context 0 1 True)\<lparr>m_stop_id := 7\<rparr>" False "Some (example_process 8)" example_storage
              "example_process 8" "example_process 3"]
        InvalidateIfNeeded_gate
          [of "(example_context 0 1 True)\<lparr>m_stop_id := 7\<rparr>" True "Some (example_process 8)" example_storage
              "example_process 8" "example_process 3"]
  by (simp add: example_context_def example_process_def example_storage_def split: prod.splits)

text \<open>
  With the process gone, two calls in a row with \<open>force = False\<close> invalidate twice.
\<close>

theorem InvalidateIfNeeded_twice_counterexample:
  "invalidations example_storage = 0
   \<and> invalidations (snd (InvalidateIfNeeded (example_context 0 1 True) False
                          (None :: ExampleMemory Process option) example_storage)) = 1
   \<and> invalidations
        (snd (InvalidateIfNeeded
                (fst (InvalidateIfNeeded (example_context 0 1 True) False
                        (None :: ExampleMemory Process option) example_storage))
                False (None :: ExampleMemory Process option)
                (snd (InvalidateIfNeeded (example_context 0 1 True) False
                        (None :: ExampleMemory Process option) example_storage)))) = 2"
  by (simp add: InvalidateIfNeeded_def example_context_def example_storage_def)

subsection \<open>Translation between numbering kinds\<close>



subsection \<open>Registers in memory\<close>

text \<open>
  C4. When the requested length exceeds \<open>kMaxRegisterByteSize\<close> or the descriptor's
  \<open>byte_size\<close>, \<^verbatim>\<open>ReadRegisterValueFromMemory\<close> returns an error, the register value it was
  given, and the process as it was: the result does not depend on \<open>ReadMemory\<close>, which
  is not called.
\<close>

theorem ReadRegisterValueFromMemory_rejects_oversize:
  "src_len > kMaxRegisterByteSize \<or> (\<exists>info. reg_info = Some info \<and> src_len > byte_size info) \<Longrightarrow>
   ReadRegisterValueFromMemory kMaxRegisterByteSize ReadMemory SetFromMemoryData
       process_sp reg_info src_addr src_len reg_value =
     ((case reg_info of
         None \<Rightarrow> InvalidRegisterInfoArgument
       | Some info \<Rightarrow>
           if src_len > kMaxRegisterByteSize then RegisterTooSmall
           else TooBigForRegister src_len (name info) (byte_size info)),
      reg_value, process_sp)
   \<and> fst (ReadRegisterValueFromMemory kMaxRegisterByteSize ReadMemory SetFromMemoryData
           process_sp reg_info src_addr src_len reg_value) \<noteq> Success"
  by (cases reg_info) (auto simp: ReadRegisterValueFromMemory_def Let_def)

theorem ReadRegisterValueFromMemory_rejects_oversize_witness:
  "(9 :: 32 word) > byte_size reg_pc
   \<and> ReadRegisterValueFromMemory 256 example_ReadMemory example_SetFromMemoryData
         (Some (example_process 8)) (Some reg_pc) 0x7000 9 0xABCD
       = (TooBigForRegister 9 ''pc'' 8, 0xABCD, Some (example_process 8))
   \<and> (300 :: 32 word) > 256
   \<and> ReadRegisterValueFromMemory 256 example_ReadMemory example_SetFromMemoryData
         (Some (example_process 8)) (Some reg_pc) 0x7000 300 0xABCD
       = (RegisterTooSmall, 0xABCD, Some (example_process 8))"
proof -
  have big: "(9 :: 32 word) > byte_size reg_pc"
    by (simp add: reg_pc_def)
  have huge: "(300 :: 32 word) > 256"
    by simp
  show ?thesis
    using big huge
      ReadRegisterValueFromMemory_rejects_oversize
        [where src_len = 9 and kMaxRegisterByteSize = 256 and reg_info = "Some reg_pc"
           and ReadMemory = example_ReadMemory and SetFromMemoryData = example_SetFromMemoryData
           and process_sp = "Some (example_process 8)" and src_addr = "0x7000"
           and reg_value = "0xABCD"]
      ReadRegisterValueFromMemory_rejects_oversize
        [where src_len = 300 and kMaxRegisterByteSize = 256 and reg_info = "Some reg_pc"
           and ReadMemory = example_ReadMemory and SetFromMemoryData = example_SetFromMemoryData
           and process_sp = "Some (example_process 8)" and src_addr = "0x7000"
           and reg_value = "0xABCD"]
    by (simp add: reg_pc_def)
qed

text \<open>
  C5. When \<open>ReadMemory\<close> returns fewer bytes than the length asked for, the read returns
  an error and the register value it was given: the error \<open>ReadMemory\<close> left if it left
  one, and \<open>ShortRead\<close>, a message of this function's own, if it left \<open>Success\<close>. The
  same holds for \<open>WriteMemory\<close> and the number of bytes \<open>GetAsMemoryData\<close> has copied,
  with \<open>ShortWrite\<close>.
\<close>

theorem short_transfer_is_an_error:
  "(reg_info = Some info \<and> \<not> src_len > kMaxRegisterByteSize \<and> \<not> src_len > byte_size info
      \<and> process_sp = Some p
      \<and> ReadMemory src_addr (ucast src_len) (memory p) = ((n, src, error), m')
      \<and> n < ucast src_len
    \<longrightarrow> ReadRegisterValueFromMemory kMaxRegisterByteSize ReadMemory SetFromMemoryData
           process_sp reg_info src_addr src_len reg_value =
         ((if error = Success then ShortRead (ucast n) src_len else error), reg_value,
          Some (p\<lparr>memory := m'\<rparr>))
      \<and> fst (ReadRegisterValueFromMemory kMaxRegisterByteSize ReadMemory SetFromMemoryData
           process_sp reg_info src_addr src_len reg_value) \<noteq> Success)
   \<and> (process_sp = Some p
      \<and> GetAsMemoryData reg_info dst_len (GetByteOrder p) reg_value = (bytes_copied, dst, Success)
      \<and> bytes_copied \<noteq> 0
      \<and> WriteMemory dst_addr dst (ucast bytes_copied) (memory p) = ((k, error_w), m_w)
      \<and> k < ucast bytes_copied
    \<longrightarrow> WriteRegisterValueToMemory WriteMemory GetAsMemoryData process_sp reg_info dst_addr dst_len reg_value =
         ((if error_w = Success then ShortWrite (ucast k) bytes_copied else error_w),
          Some (p\<lparr>memory := m_w\<rparr>))
      \<and> fst (WriteRegisterValueToMemory WriteMemory GetAsMemoryData process_sp reg_info dst_addr dst_len
             reg_value) \<noteq> Success)"
  by (auto simp: ReadRegisterValueFromMemory_def WriteRegisterValueToMemory_def Let_def
        dest: short_count_differs)

theorem short_transfer_is_an_error_witness:
  "ReadRegisterValueFromMemory 256 example_ReadMemory example_SetFromMemoryData
       (Some (example_process 3)) (Some reg_pc) 0x7000 8 0xABCD
     = (ShortRead 3 8, 0xABCD, Some ((example_process 3)\<lparr>memory := \<lparr>limit = 3, transfers = 1\<rparr>\<rparr>))
   \<and> WriteRegisterValueToMemory example_WriteMemory example_GetAsMemoryData
       (Some (example_process 3)) (Some reg_pc) 0x7000 8 0xABCD
     = (ShortWrite 3 8, Some ((example_process 3)\<lparr>memory := \<lparr>limit = 3, transfers = 1\<rparr>\<rparr>))"
proof -
  let ?dst = "fst (snd (example_GetAsMemoryData (Some reg_pc) 8 eByteOrderLittle 0xABCD))"
  have rd: "example_ReadMemory 0x7000 (ucast (8 :: 32 word)) (memory (example_process 3))
      = ((3, replicate 3 0, Success), \<lparr>limit = 3, transfers = 1\<rparr>)"
    by (simp add: example_ReadMemory_def example_process_def)
  have cp: "example_GetAsMemoryData (Some reg_pc) 8 (GetByteOrder (example_process 3)) 0xABCD
      = (8, ?dst, Success)"
    by (simp add: example_GetAsMemoryData_def example_process_def)
  have wr: "example_WriteMemory 0x7000 ?dst (ucast (8 :: 32 word)) (memory (example_process 3))
      = ((3, Success), \<lparr>limit = 3, transfers = 1\<rparr>)"
    by (simp add: example_WriteMemory_def example_process_def)
  have short: "(3 :: 64 word) < ucast (8 :: 32 word)"
    by simp
  have fits: "\<not> (8 :: 32 word) > 256" "\<not> (8 :: 32 word) > byte_size reg_pc" "(8 :: 32 word) \<noteq> 0"
    by (simp_all add: reg_pc_def)
  show ?thesis
    using rd cp wr short fits
      short_transfer_is_an_error
        [where reg_info = "Some reg_pc" and info = reg_pc and src_len = 8
           and kMaxRegisterByteSize = 256 and process_sp = "Some (example_process 3)"
           and p = "example_process 3" and ReadMemory = example_ReadMemory and src_addr = "0x7000"
           and n = 3 and src = "replicate 3 0" and error = Success
           and m' = "\<lparr>limit = 3, transfers = 1\<rparr>"
           and SetFromMemoryData = example_SetFromMemoryData and reg_value = "0xABCD"
           and GetAsMemoryData = example_GetAsMemoryData and dst_len = 8 and bytes_copied = 8
           and dst = ?dst and WriteMemory = example_WriteMemory and dst_addr = "0x7000"
           and k = 3 and error_w = Success and m_w = "\<lparr>limit = 3, transfers = 1\<rparr>"]
    by simp
qed

subsection \<open>Copy between contexts\<close>

text \<open>
  C6. When the thread ids of the two contexts differ, or their numbers of register sets
  differ, \<^verbatim>\<open>CopyFromRegisterContext\<close> returns false and the register storage as it was,
  whatever the register primitives of the three contexts do: none of them is called. The
  source compares the counts after it has stored the source context's count in a
  \<^verbatim>\<open>uint32_t\<close>: the second disjunct is the claim for a count that a \<^verbatim>\<open>uint32_t\<close> holds,
  the third is the test of the source for any count.
\<close>

theorem CopyFromRegisterContext_mismatch:
  "GetThreadID context \<noteq> GetThreadID this
   \<or> (GetRegisterSetCount context < 2 ^ 32
        \<and> GetRegisterSetCount context \<noteq> GetRegisterSetCount this)
   \<or> unat (of_nat (GetRegisterSetCount context) :: 32 word) \<noteq> GetRegisterSetCount this
   \<Longrightarrow> CopyFromRegisterContext this frame_zero_context context b = (False, b)"
  by (auto simp: CopyFromRegisterContext_def Let_def uint32_count_unchanged)

theorem CopyFromRegisterContext_mismatch_witness:
  "GetThreadID (example_context 2 2 True) \<noteq> GetThreadID (example_context 0 1 True)
   \<and> \<not> fst (CopyFromRegisterContext (example_context 0 1 True) (example_context 1 1 True)
               (example_context 2 2 True) example_storage)
   \<and> accesses (snd (CopyFromRegisterContext (example_context 0 1 True) (example_context 1 1 True)
               (example_context 2 2 True) example_storage)) = 0
   \<and> GetRegisterSetCount ((example_context 2 1 True)\<lparr>reg_sets := []\<rparr>) < 2 ^ 32
   \<and> GetRegisterSetCount ((example_context 2 1 True)\<lparr>reg_sets := []\<rparr>)
        \<noteq> GetRegisterSetCount (example_context 0 1 True)
   \<and> \<not> fst (CopyFromRegisterContext (example_context 0 1 True) (example_context 1 1 True)
               ((example_context 2 1 True)\<lparr>reg_sets := []\<rparr>) example_storage)
   \<and> accesses (snd (CopyFromRegisterContext (example_context 0 1 True) (example_context 1 1 True)
               ((example_context 2 1 True)\<lparr>reg_sets := []\<rparr>) example_storage)) = 0"
proof -
  have tid: "GetThreadID (example_context 2 2 True) \<noteq> GetThreadID (example_context 0 1 True)"
    by (simp add: GetThreadID_def example_context_def)
  have cnt: "GetRegisterSetCount ((example_context 2 1 True)\<lparr>reg_sets := []\<rparr>) < 2 ^ 32
      \<and> GetRegisterSetCount ((example_context 2 1 True)\<lparr>reg_sets := []\<rparr>)
        \<noteq> GetRegisterSetCount (example_context 0 1 True)"
    by (simp add: GetRegisterSetCount_def example_context_def)
  show ?thesis
    using tid cnt
      CopyFromRegisterContext_mismatch [OF disjI1, OF tid, of "example_context 1 1 True" example_storage]
      CopyFromRegisterContext_mismatch
        [OF disjI2, OF disjI1, OF cnt, of "example_context 1 1 True" example_storage]
    by (simp add: example_storage_def)
qed




text \<open>
  C10. When the two tests pass (the thread ids agree, and the source context's count of
  register sets, as the \<^verbatim>\<open>uint32_t\<close> holds it, is this context's count: for a count
  below \<open>2 ^ 32\<close>, the counts agree), \<^verbatim>\<open>CopyFromRegisterContext\<close> returns true, whatever the register primitives return: the
  flags of \<^verbatim>\<open>WriteRegister\<close> are dropped. The examples are a context that refuses every
  write and two contexts that have nothing to read: the result is true and the registers
  keep their values.
\<close>

theorem CopyFromRegisterContext_returns_true:
  "GetThreadID context = GetThreadID this \<Longrightarrow>
   unat (of_nat (GetRegisterSetCount context) :: 32 word) = GetRegisterSetCount this \<Longrightarrow>
   fst (CopyFromRegisterContext this frame_zero_context context b) = True"
  by (simp add: CopyFromRegisterContext_def Let_def)

theorem CopyFromRegisterContext_returns_true_witness:
  "GetThreadID (example_context 2 1 True) = GetThreadID (example_context 0 1 False)
   \<and> GetRegisterSetCount (example_context 2 1 True) = GetRegisterSetCount (example_context 0 1 False)
   \<and> unat (of_nat (GetRegisterSetCount (example_context 2 1 True)) :: 32 word)
       = GetRegisterSetCount (example_context 0 1 False)
   \<and> fst (CopyFromRegisterContext (example_context 0 1 False) (example_context 1 1 True)
             (example_context 2 1 True) example_storage)
   \<and> cells (snd (CopyFromRegisterContext (example_context 0 1 False) (example_context 1 1 True)
             (example_context 2 1 True) example_storage)) (0, 0) = Some 0x1000
   \<and> cells (snd (CopyFromRegisterContext (example_context 0 1 False) (example_context 1 1 True)
             (example_context 2 1 True) example_storage)) (0, 1) = Some 0x2000
   \<and> fst (CopyFromRegisterContext (example_context 0 1 True) (example_context 5 1 True)
             (example_context 6 1 True) example_storage)
   \<and> cells (snd (CopyFromRegisterContext (example_context 0 1 True) (example_context 5 1 True)
             (example_context 6 1 True) example_storage)) (0, 0) = Some 0x1000
   \<and> cells (snd (CopyFromRegisterContext (example_context 0 1 True) (example_context 5 1 True)
             (example_context 6 1 True) example_storage)) (0, 1) = Some 0x2000"
proof -
  have tid: "GetThreadID (example_context 2 1 True) = GetThreadID (example_context 0 1 False)"
    and tid': "GetThreadID (example_context 6 1 True) = GetThreadID (example_context 0 1 True)"
    by (simp_all add: GetThreadID_def example_context_def)
  have eq: "GetRegisterSetCount (example_context 2 1 True) = GetRegisterSetCount (example_context 0 1 False)"
    by (simp add: GetRegisterSetCount_def example_context_def)
  have cnt: "unat (of_nat (GetRegisterSetCount (example_context 2 1 True)) :: 32 word)
      = GetRegisterSetCount (example_context 0 1 False)"
    and cnt': "unat (of_nat (GetRegisterSetCount (example_context 6 1 True)) :: 32 word)
      = GetRegisterSetCount (example_context 0 1 True)"
    by (simp_all add: GetRegisterSetCount_def example_context_def)
  show ?thesis
    using tid eq cnt example_copy_nothing
      CopyFromRegisterContext_returns_true [OF tid cnt, of "example_context 1 1 True" example_storage]
      CopyFromRegisterContext_returns_true [OF tid' cnt', of "example_context 5 1 True" example_storage]
    by simp
qed

subsection \<open>The program counter\<close>

text \<open>
  C8. When the write of the program counter succeeds, \<^verbatim>\<open>SetPC\<close> calls \<^verbatim>\<open>ChangePC\<close> on the
  frame at \<open>m_concrete_frame_idx\<close> if the thread has one, and \<^verbatim>\<open>ClearStackFrames\<close>
  otherwise. When the write fails, the frame state is the one \<^verbatim>\<open>SetPC\<close> was given: the
  thread is not asked for a frame, and neither operation runs. The write succeeds exactly
  when the generic program counter resolves to a register number other than
  \<open>LLDB_INVALID_REGNUM\<close> that has a descriptor, \<open>SetUInt\<close> accepts the value at the
  descriptor's \<open>byte_size\<close>, and \<^verbatim>\<open>WriteRegister\<close> returns true.
\<close>

theorem SetPC_frame_effect:
  "(WriteRegisterFromUnsigned SetUInt this
       (ConvertRegisterKindToRegisterNumber this eRegisterKindGeneric LLDB_REGNUM_GENERIC_PC) pc b = (True, b')
     \<and> GetFrameWithConcreteFrameIndex m_thread (m_concrete_frame_idx this) t = (Some frame_sp, t')
     \<longrightarrow> SetPC SetUInt m_thread this pc b t = (True, b', ChangePC m_thread frame_sp pc t'))
   \<and> (WriteRegisterFromUnsigned SetUInt this
       (ConvertRegisterKindToRegisterNumber this eRegisterKindGeneric LLDB_REGNUM_GENERIC_PC) pc b = (True, b')
     \<and> GetFrameWithConcreteFrameIndex m_thread (m_concrete_frame_idx this) t = (None, t')
     \<longrightarrow> SetPC SetUInt m_thread this pc b t = (True, b', ClearStackFrames m_thread t'))
   \<and> (WriteRegisterFromUnsigned SetUInt this
       (ConvertRegisterKindToRegisterNumber this eRegisterKindGeneric LLDB_REGNUM_GENERIC_PC) pc b = (False, b')
     \<longrightarrow> SetPC SetUInt m_thread this pc b t = (False, b', t))
   \<and> (fst (WriteRegisterFromUnsigned SetUInt this
       (ConvertRegisterKindToRegisterNumber this eRegisterKindGeneric LLDB_REGNUM_GENERIC_PC) pc b) \<longleftrightarrow>
        ConvertRegisterKindToRegisterNumber this eRegisterKindGeneric LLDB_REGNUM_GENERIC_PC \<noteq> LLDB_INVALID_REGNUM
        \<and> (\<exists>info v. GetRegisterInfoAtIndex this
               (ConvertRegisterKindToRegisterNumber this eRegisterKindGeneric LLDB_REGNUM_GENERIC_PC) = Some info
             \<and> SetUInt pc (byte_size info) = Some v \<and> fst (WriteRegister this info v b)))"
  by (auto simp: SetPC_def Let_def WriteRegisterFromUnsigned_def WriteRegisterFromUnsigned_info_def
        split: option.splits)

theorem SetPC_frame_effect_witness:
  "snd (snd (SetPC example_SetUInt example_thread (example_context 1 1 True) 0x4010 example_storage
          [(0, 0x1000), (1, 0x2000)])) = [(0, 0x1000), (1, 0x4010)]
   \<and> snd (snd (SetPC example_SetUInt example_thread (example_context 5 1 True) 0x4010 example_storage
          [(0, 0x1000), (1, 0x2000)])) = []
   \<and> snd (snd (SetPC example_SetUInt example_thread (example_context 1 1 False) 0x4010 example_storage
          [(0, 0x1000), (1, 0x2000)])) = [(0, 0x1000), (1, 0x2000)]
   \<and> \<not> fst (SetPC example_SetUInt example_thread (example_context 1 1 False) 0x4010 example_storage
          [(0, 0x1000), (1, 0x2000)])"
  using SetPC_frame_effect
          [of example_SetUInt "example_context 1 1 True" "0x4010" example_storage
              "example_storage\<lparr>cells := (cells example_storage)((1, 0) := Some 0x4010),
                               accesses := Suc (accesses example_storage)\<rparr>"
              example_thread "[(0, 0x1000), (1, 0x2000)]" 1 "[(0, 0x1000), (1, 0x2000)]"]
        SetPC_frame_effect
          [of example_SetUInt "example_context 5 1 True" "0x4010" example_storage
              "example_storage\<lparr>cells := (cells example_storage)((5, 0) := Some 0x4010),
                               accesses := Suc (accesses example_storage)\<rparr>"
              example_thread "[(0, 0x1000), (1, 0x2000)]" _ "[(0, 0x1000), (1, 0x2000)]"]
        SetPC_frame_effect
          [of example_SetUInt "example_context 1 1 False" "0x4010" example_storage
              "example_storage\<lparr>accesses := Suc (accesses example_storage)\<rparr>"
              example_thread "[(0, 0x1000), (1, 0x2000)]" _ "[(0, 0x1000), (1, 0x2000)]"]
  by (simp add: example_pc_number example_write_pc)
     (simp add: example_thread_def example_context_def)

text \<open>
  C9, as the code has it. Let the generic program counter resolve to a register with a
  descriptor, let \<^verbatim>\<open>RegisterValue\<close> hold 0x4010 at the descriptor's \<open>byte_size\<close>, let the
  context accept the write and return the value it stored, and let the target, if there
  is one, leave the code address 0x4010 as it is. Then \<^verbatim>\<open>SetPC(0x4010)\<close> returns true and
  \<^verbatim>\<open>GetPC\<close> after it returns 0x4010, whatever failure value the caller passes.
\<close>

theorem GetPC_after_SetPC:
  assumes resolves:
      "ConvertRegisterKindToRegisterNumber this eRegisterKindGeneric LLDB_REGNUM_GENERIC_PC = reg"
      "reg \<noteq> LLDB_INVALID_REGNUM"
      "GetRegisterInfoAtIndex this reg = Some info"
    and fits: "SetUInt 0x4010 (byte_size info) = Some v" "GetAsUInt64 v = 0x4010"
    and stores: "WriteRegister this info v b = (True, b1)" "fst (ReadRegister this info b1) = Some v"
    and target:
      "case CalculateTarget m_thread of
         Some target \<Rightarrow> GetOpcodeLoadAddress target 0x4010 = 0x4010
       | None \<Rightarrow> True"
  shows "fst (SetPC SetUInt m_thread this 0x4010 b t)
     \<and> (case SetPC SetUInt m_thread this 0x4010 b t of
          (success, b', t') \<Rightarrow> fst (GetPC GetAsUInt64 m_thread this fail_value b') = 0x4010)"
proof -
  have w: "WriteRegisterFromUnsigned SetUInt this reg 0x4010 b = (True, b1)"
    using resolves fits stores
    by (simp add: WriteRegisterFromUnsigned_def WriteRegisterFromUnsigned_info_def)
  have s: "fst (SetPC SetUInt m_thread this 0x4010 b t)
      \<and> fst (snd (SetPC SetUInt m_thread this 0x4010 b t)) = b1"
    using resolves(1) w by (simp add: SetPC_def split: prod.splits option.splits)
  obtain b2 where r: "ReadRegister this info b1 = (Some v, b2)"
    using stores(2) by (cases "ReadRegister this info b1") simp
  have "ReadRegisterAsUnsigned GetAsUInt64 this reg fail_value b1 = (0x4010, b2)"
    using resolves fits r by (simp add: ReadRegisterAsUnsigned_def ReadRegisterAsUnsigned_info_def)
  then have "fst (GetPC GetAsUInt64 m_thread this fail_value b1) = 0x4010"
    using resolves(1) target by (simp add: GetPC_def split: option.splits)
  with s show ?thesis
    by (auto split: prod.splits)
qed

theorem GetPC_after_SetPC_witness:
  "fst (SetPC example_SetUInt example_thread (example_context 1 1 True) 0x4010 example_storage
          [(0, 0x1000), (1, 0x2000)])
   \<and> (case SetPC example_SetUInt example_thread (example_context 1 1 True) 0x4010 example_storage
               [(0, 0x1000), (1, 0x2000)] of
         (success, b', t') \<Rightarrow>
           fst (GetPC example_GetAsUInt64 example_thread (example_context 1 1 True)
                  0xFFFFFFFFFFFFFFFF b') = 0x4010)"
proof -
  let ?b1 = "example_storage\<lparr>cells := (cells example_storage)((1, 0) := Some 0x4010),
                             accesses := Suc (accesses example_storage)\<rparr>"
  have valid: "(0 :: 32 word) \<noteq> LLDB_INVALID_REGNUM"
    by (simp add: LLDB_INVALID_REGNUM_def)
  have fits: "example_SetUInt 0x4010 (byte_size reg_pc) = Some 0x4010"
      "example_GetAsUInt64 0x4010 = 0x4010"
    by (simp_all add: example_SetUInt_def example_GetAsUInt64_def reg_pc_def)
  have stores: "WriteRegister (example_context 1 1 True) reg_pc 0x4010 example_storage = (True, ?b1)"
      "fst (ReadRegister (example_context 1 1 True) reg_pc ?b1) = Some 0x4010"
    by (simp_all add: example_context_def reg_pc_def example_kinds_def)
  have target:
    "case CalculateTarget example_thread of
       Some target \<Rightarrow> GetOpcodeLoadAddress target 0x4010 = 0x4010
     | None \<Rightarrow> True"
    by (simp add: example_thread_def)
  show ?thesis
    by (rule GetPC_after_SetPC
          [where this = "example_context 1 1 True" and reg = 0 and info = reg_pc
             and SetUInt = example_SetUInt and v = "0x4010" and ?GetAsUInt64.0 = example_GetAsUInt64
             and b = example_storage and ?b1.0 = ?b1 and m_thread = example_thread,
           OF example_pc_number [of 1 1 True] valid example_pc_info [of 1 1 True] fits stores target])
qed

text \<open>
  That the generic program counter resolves to a register with a descriptor is not
  enough. This context refuses every write: \<^verbatim>\<open>SetPC(0x4010)\<close> returns false, and \<^verbatim>\<open>GetPC\<close>
  after it returns 0x1000, the value the register held before.
\<close>

theorem GetPC_after_refused_SetPC_counterexample:
  "ConvertRegisterKindToRegisterNumber (example_context 0 1 False)
       eRegisterKindGeneric LLDB_REGNUM_GENERIC_PC = 0
   \<and> (0 :: 32 word) \<noteq> LLDB_INVALID_REGNUM
   \<and> GetRegisterInfoAtIndex (example_context 0 1 False) 0 = Some reg_pc
   \<and> \<not> fst (SetPC example_SetUInt example_thread (example_context 0 1 False) 0x4010
               example_storage [(0, 0x1000)])
   \<and> fst (GetPC example_GetAsUInt64 example_thread (example_context 0 1 False) 0xFFFFFFFFFFFFFFFF
            (fst (snd (SetPC example_SetUInt example_thread (example_context 0 1 False) 0x4010
                         example_storage [(0, 0x1000)])))) = 0x1000"
  by (simp add: SetPC_def GetPC_def example_pc_number example_pc_info example_write_pc
        ReadRegisterAsUnsigned_def ReadRegisterAsUnsigned_info_def LLDB_INVALID_REGNUM_def
        example_GetAsUInt64_def)
     (simp add: example_context_def example_storage_def example_thread_def reg_pc_def
        example_kinds_def example_GetAsUInt64_def)

end
